theory Spec2Isabelle
  imports Main
begin

section \<open>The leave-one-cluster-out splitter of loco-ridge-steels.ipynb\<close>

text \<open>
  The notebook defines one class, \<^verbatim>\<open>LocoCV(BaseCrossValidator)\<close>, with a field
  \<^verbatim>\<open>clusterer\<close> and two methods, \<^verbatim>\<open>_iter_test_masks\<close> and \<^verbatim>\<open>get_n_splits\<close>.
  A feature matrix is the list of its rows; its row count is the length of the list.
  Cluster labels are Python integers. A clustering algorithm is the function its
  \<^verbatim>\<open>fit_predict\<close> computes from the feature matrix to the label sequence, which is what
  a deterministic (seeded) clusterer is.
\<close>

subsection \<open>Data\<close>

text \<open>The one exception the class raises, with its message.\<close>

datatype error = ValueError string

record 'x ClustererMixin =
  fit_predict :: "'x list \<Rightarrow> int list"

record 'x LocoCV =
  clusterer :: "'x ClustererMixin"

text \<open>
  A Python generator yields a finite sequence of items and then either stops or raises.
  What a consumer observes when it drains the generator is the list of items yielded and
  the exception that ended it, if any.
\<close>

record 'a generated =
  yielded :: "'a list"
  raised :: "error option"

subsection \<open>Operations\<close>

text \<open>\<^verbatim>\<open>np.unique(ar)\<close>: the sorted unique elements of an array.\<close>

definition np_unique :: "int list \<Rightarrow> int list" where
  "np_unique ar = sort (remdups ar)"

text \<open>
  \<^verbatim>\<open>LocoCV._iter_test_masks\<close>:
  \<^verbatim>\<open>
  def _iter_test_masks(self, X, y=None, groups=None):
      labels = self.clusterer.fit_predict(X)
      clust_labels = np.unique(labels)
      if len(clust_labels) < 2:
          raise ValueError('Clusterer produced < 2 labels. Cannot use for LOCO CV')
      for label in clust_labels:
          yield labels == label
  \<close>
  The comparison \<^verbatim>\<open>labels == label\<close> of an array with a scalar is the elementwise
  boolean mask. The \<^verbatim>\<open>raise\<close> stands before the loop, so nothing has been yielded
  when it happens.
\<close>

definition iter_test_masks ::
  "'x LocoCV \<Rightarrow> 'x list \<Rightarrow> 'y option \<Rightarrow> 'g option \<Rightarrow> bool list generated" where
  "iter_test_masks self X y groups =
     (let labels = fit_predict (clusterer self) X;
          clust_labels = np_unique labels
      in if length clust_labels < 2
         then \<lparr>yielded = [],
               raised = Some (ValueError ''Clusterer produced < 2 labels. Cannot use for LOCO CV'')\<rparr>
         else \<lparr>yielded = map (\<lambda>label. map (\<lambda>l. l = label) labels) clust_labels,
               raised = None\<rparr>)"

text \<open>
  \<^verbatim>\<open>LocoCV.get_n_splits\<close>, which has no \<^verbatim>\<open>raise\<close>:
  \<^verbatim>\<open>
  def get_n_splits(self, X, y=None, groups=None):
      return len(np.unique(self.clusterer.fit_predict(X)))
  \<close>
\<close>

definition get_n_splits :: "'x LocoCV \<Rightarrow> 'x list \<Rightarrow> 'y option \<Rightarrow> 'g option \<Rightarrow> nat" where
  "get_n_splits self X y groups = length (np_unique (fit_predict (clusterer self) X))"

text \<open>
  The insufficient-clusters error, as the spec calls it: the \<^verbatim>\<open>ValueError\<close> that
  \<^verbatim>\<open>_iter_test_masks\<close> raises.
\<close>

definition insufficient_clusters :: error where
  "insufficient_clusters = ValueError ''Clusterer produced < 2 labels. Cannot use for LOCO CV''"

text \<open>
  Modelled from the spec: the conversion of a boolean mask to index positions, which the
  notebook leaves to the \<^verbatim>\<open>split\<close> it inherits from the library's
  \<^verbatim>\<open>BaseCrossValidator\<close>. The spec: "test indices = positions where labels[i] == l".
\<close>

definition mask_indices :: "bool list \<Rightarrow> nat list" where
  "mask_indices test_mask = filter (\<lambda>i. test_mask ! i) [0..<length test_mask]"

text \<open>
  Modelled from the spec: \<^verbatim>\<open>split(X, y=None, groups=None)\<close>. The notebook does not
  define it: \<^verbatim>\<open>LocoCV\<close> inherits it from the library's \<^verbatim>\<open>BaseCrossValidator\<close>, which
  drains \<^verbatim>\<open>self._iter_test_masks(X, y, groups)\<close> and turns each mask into a pair of
  index arrays. The spec: for each distinct label, in the order enumerated, "produce a
  partition whose test set is the boolean mask labels == label converted to index
  positions, and whose train set is the complement", that is "train indices = all other
  positions" of the n rows; when fewer than 2 distinct labels exist "no partitions are
  yielded and the caller of the first split request observes the error". The masks and
  the error are those of \<open>iter_test_masks\<close> above, which is the notebook's code; a
  partition is the pair (train, test). The library's validation of its arguments is not
  part of the model.
\<close>

definition split ::
  "'x LocoCV \<Rightarrow> 'x list \<Rightarrow> 'y option \<Rightarrow> 'g option \<Rightarrow> (nat list \<times> nat list) generated" where
  "split self X y groups =
     (let masks = iter_test_masks self X y groups
      in \<lparr>yielded =
            map (\<lambda>test_mask.
                   (filter (\<lambda>i. i \<notin> set (mask_indices test_mask)) [0..<length X],
                    mask_indices test_mask))
              (yielded masks),
          raised = raised masks\<rparr>)"

text \<open>
  The stub clustering algorithm of the spec's testable properties: it returns the given
  labels whatever the feature matrix.
\<close>

definition stub :: "int list \<Rightarrow> 'x LocoCV" where
  "stub labels = \<lparr>clusterer = \<lparr>fit_predict = \<lambda>X. labels\<rparr>\<rparr>"

text \<open>
  The rows that carry a given label, in ascending order of position. The theorems below
  state the test sets with it.
\<close>

definition rows_with_label :: "int list \<Rightarrow> int \<Rightarrow> nat list" where
  "rows_with_label labels label = filter (\<lambda>i. labels ! i = label) [0..<length labels]"

text \<open>
  The enumeration the spec describes in words, to compare with \<open>np_unique\<close>: the distinct
  labels "ordered by first appearance in the label sequence".
\<close>

fun spec_first_appearance :: "int list \<Rightarrow> int list" where
  "spec_first_appearance [] = []"
| "spec_first_appearance (l # ls) = l # filter (\<lambda>m. m \<noteq> l) (spec_first_appearance ls)"

section \<open>Properties\<close>

subsection \<open>The enumeration of labels\<close>

lemma set_np_unique: "set (np_unique ar) = set ar"
  by (simp add: np_unique_def)

lemma distinct_np_unique: "distinct (np_unique ar)"
  by (simp add: np_unique_def)

lemma length_np_unique: "length (np_unique ar) = card (set ar)"
  by (simp add: np_unique_def length_remdups_card_conv)

lemma np_unique_sorted_list: "np_unique ar = sorted_list_of_set (set ar)"
  by (simp add: np_unique_def sorted_list_of_set_sort_remdups)

subsection \<open>Masks and index positions\<close>

lemma mask_indices_eq:
  "mask_indices (map (\<lambda>l. l = label) labels) = rows_with_label labels label"
  by (auto simp: mask_indices_def rows_with_label_def intro: filter_cong)

lemma set_rows_with_label:
  "set (rows_with_label labels label) = {i. i < length labels \<and> labels ! i = label}"
  by (auto simp: rows_with_label_def)

lemma set_mask_indices: "set (mask_indices m) = {i. i < length m \<and> m ! i}"
  by (auto simp: mask_indices_def)

lemma mask_indices_nonempty: "True \<in> set m \<Longrightarrow> mask_indices m \<noteq> []"
proof -
  assume "True \<in> set m"
  then obtain i where "i < length m" "m ! i"
    by (auto simp: in_set_conv_nth)
  then have "i \<in> set (mask_indices m)"
    by (simp add: set_mask_indices)
  then show ?thesis
    by auto
qed

lemma complement_nonempty:
  "False \<in> set m \<Longrightarrow> length m = n \<Longrightarrow>
   filter (\<lambda>i. i \<notin> set (mask_indices m)) [0..<n] \<noteq> []"
proof -
  assume "False \<in> set m" and n: "length m = n"
  then obtain i where "i < length m" "\<not> m ! i"
    by (auto simp: in_set_conv_nth)
  then have "i \<in> set [0..<n]" "i \<notin> set (mask_indices m)"
    using n by (simp_all add: set_mask_indices)
  then show ?thesis
    unfolding filter_empty_conv by blast
qed

subsection \<open>The two outcomes of a split\<close>

lemma iter_test_masks_unfold:
  "iter_test_masks self X y groups =
     (if card (set (fit_predict (clusterer self) X)) < 2
      then \<lparr>yielded = [], raised = Some insufficient_clusters\<rparr>
      else \<lparr>yielded =
              map (\<lambda>label. map (\<lambda>l. l = label) (fit_predict (clusterer self) X))
                (np_unique (fit_predict (clusterer self) X)),
            raised = None\<rparr>)"
  by (simp add: iter_test_masks_def insufficient_clusters_def Let_def length_np_unique)

lemma split_unfold:
  "split self X y groups =
     (if card (set (fit_predict (clusterer self) X)) < 2
      then \<lparr>yielded = [], raised = Some insufficient_clusters\<rparr>
      else \<lparr>yielded =
              map (\<lambda>label.
                     (filter (\<lambda>i. i \<notin> set (rows_with_label (fit_predict (clusterer self) X) label))
                        [0..<length X],
                      rows_with_label (fit_predict (clusterer self) X) label))
                (np_unique (fit_predict (clusterer self) X)),
            raised = None\<rparr>)"
  by (simp add: split_def iter_test_masks_unfold mask_indices_eq comp_def)

lemma tests_split:
  "2 \<le> card (set (fit_predict (clusterer self) X)) \<Longrightarrow>
   map snd (yielded (split self X y groups)) =
   map (rows_with_label (fit_predict (clusterer self) X))
     (np_unique (fit_predict (clusterer self) X))"
  by (simp add: split_unfold comp_def)

lemma set_class_nth:
  "k < length U \<Longrightarrow>
   set (map (rows_with_label ls) U ! k) = {i. i < length ls \<and> ls ! i = U ! k}"
  by (simp add: set_rows_with_label)

lemma unique_index:
  "distinct U \<Longrightarrow> x \<in> set U \<Longrightarrow> \<exists>!k. k < length U \<and> U ! k = x"
  by (metis in_set_conv_nth nth_eq_iff_index_eq)

lemma masks_cover_rows:
  assumes rows: "length (fit_predict (clusterer self) X) = length X"
    and two: "2 \<le> card (set (fit_predict (clusterer self) X))"
  shows "(\<forall>m \<in> set (yielded (iter_test_masks self X y groups)). length m = length X) \<and>
    (\<forall>r < length X. \<exists>!k. k < length (yielded (iter_test_masks self X y groups)) \<and>
       yielded (iter_test_masks self X y groups) ! k ! r)"
proof -
  let ?ls = "fit_predict (clusterer self) X"
  let ?U = "np_unique ?ls"
  let ?ms = "yielded (iter_test_masks self X y groups)"
  have ms: "?ms = map (\<lambda>label. map (\<lambda>l. l = label) ?ls) ?U"
    using two by (simp add: iter_test_masks_unfold)
  have len: "\<forall>m \<in> set ?ms. length m = length X"
    using rows by (auto simp: ms)
  have one: "\<exists>!k. k < length ?ms \<and> ?ms ! k ! r" if "r < length X" for r
  proof -
    have "?ls ! r \<in> set ?U"
      using that rows by (simp add: set_np_unique)
    then have "\<exists>!k. k < length ?U \<and> ?U ! k = ?ls ! r"
      using distinct_np_unique by (rule unique_index [rotated])
    moreover have "(k < length ?ms \<and> ?ms ! k ! r) = (k < length ?U \<and> ?U ! k = ?ls ! r)" for k
      using that rows by (auto simp: ms)
    ultimately show ?thesis
      by simp
  qed
  from len one show ?thesis
    by blast
qed

lemma other_label:
  assumes "2 \<le> card (set ls)"
  shows "\<exists>other. other \<in> set ls \<and> other \<noteq> label"
proof (rule ccontr)
  assume "\<not> (\<exists>other. other \<in> set ls \<and> other \<noteq> label)"
  then have "set ls \<subseteq> {label}"
    by blast
  then have "card (set ls) \<le> card {label}"
    by (intro card_mono) simp_all
  then show False
    using assms by simp
qed

section \<open>The claims\<close>

text \<open>
  C1. For a feature matrix X with n rows and a clustering algorithm that labels every row
  and produces k \<ge> 2 distinct labels on X, one \<open>split\<close> of X ends without error and
  yields k partitions whose test sets are pairwise disjoint and whose union is the full
  index set {0, ..., n-1}: every row lies in exactly one test set. In terms of
  \<^verbatim>\<open>_iter_test_masks\<close>: every mask has n entries, and every row is True in exactly one
  mask. The first hypothesis is the contract of \<^verbatim>\<open>fit_predict\<close>: one label per row of X.
\<close>

theorem split_tests_partition_rows:
  assumes rows: "length (fit_predict (clusterer self) X) = length X"
    and two: "2 \<le> card (set (fit_predict (clusterer self) X))"
  shows "(\<forall>m \<in> set (yielded (iter_test_masks self X y groups)). length m = length X) \<and>
    (\<forall>r < length X. \<exists>!k. k < length (yielded (iter_test_masks self X y groups)) \<and>
       yielded (iter_test_masks self X y groups) ! k ! r) \<and>
    raised (split self X y groups) = None \<and>
    length (yielded (split self X y groups)) = card (set (fit_predict (clusterer self) X)) \<and>
    (\<forall>i j. i < j \<and> j < length (yielded (split self X y groups)) \<longrightarrow>
       set (snd (yielded (split self X y groups) ! i)) \<inter>
       set (snd (yielded (split self X y groups) ! j)) = {}) \<and>
    (\<Union>p \<in> set (yielded (split self X y groups)). set (snd p)) = {0..<length X} \<and>
    (\<forall>r < length X. \<exists>!k. k < length (yielded (split self X y groups)) \<and>
       r \<in> set (snd (yielded (split self X y groups) ! k)))"
proof -
  let ?ls = "fit_predict (clusterer self) X"
  let ?U = "np_unique ?ls"
  let ?ps = "yielded (split self X y groups)"
  let ?tests = "map (rows_with_label ?ls) ?U"
  have tests: "map snd ?ps = ?tests"
    using two by (rule tests_split)
  have len: "length ?ps = length ?U"
    using two by (simp add: split_unfold)
  have nth_test: "set (snd (?ps ! k)) = {i. i < length X \<and> ?ls ! i = ?U ! k}"
    if "k < length ?U" for k
  proof -
    have "snd (?ps ! k) = ?tests ! k"
      using that len tests by (metis nth_map)
    moreover have "set (?tests ! k) = {i. i < length ?ls \<and> ?ls ! i = ?U ! k}"
      using that by (rule set_class_nth)
    ultimately show ?thesis
      using rows by simp
  qed
  have ok: "raised (split self X y groups) = None"
    using two by (simp add: split_unfold)
  have count: "length ?ps = card (set ?ls)"
    by (simp add: len length_np_unique)
  have disj: "set (snd (?ps ! i)) \<inter> set (snd (?ps ! j)) = {}"
    if "i < j" "j < length ?ps" for i j
  proof -
    have "?U ! i \<noteq> ?U ! j"
      using that len distinct_np_unique [of ?ls] by (simp add: nth_eq_iff_index_eq)
    then show ?thesis
      using that len by (auto simp: nth_test)
  qed
  have one: "\<exists>!k. k < length ?ps \<and> r \<in> set (snd (?ps ! k))" if "r < length X" for r
  proof -
    have "?ls ! r \<in> set ?U"
      using that rows by (simp add: set_np_unique)
    then obtain k where k: "k < length ?U" "?U ! k = ?ls ! r"
      by (auto simp: in_set_conv_nth)
    show ?thesis
    proof (rule ex1I [of _ k])
      show "k < length ?ps \<and> r \<in> set (snd (?ps ! k))"
        using k that len by (simp add: nth_test)
    next
      fix m
      assume "m < length ?ps \<and> r \<in> set (snd (?ps ! m))"
      then have m: "m < length ?U" "r \<in> set (snd (?ps ! m))"
        using len by simp_all
      have "?U ! m = ?U ! k"
        using m k by (simp add: nth_test)
      then show "m = k"
        using m(1) k(1) distinct_np_unique [of ?ls] nth_eq_iff_index_eq by blast
    qed
  qed
  have cover: "(\<Union>p \<in> set ?ps. set (snd p)) = {0..<length X}"
  proof
    show "(\<Union>p \<in> set ?ps. set (snd p)) \<subseteq> {0..<length X}"
    proof
      fix r
      assume "r \<in> (\<Union>p \<in> set ?ps. set (snd p))"
      then obtain p where p: "p \<in> set ?ps" "r \<in> set (snd p)"
        by blast
      then obtain k where "k < length ?ps" "?ps ! k = p"
        by (metis in_set_conv_nth)
      with p have "k < length ?ps" "r \<in> set (snd (?ps ! k))"
        by simp_all
      then show "r \<in> {0..<length X}"
        using len by (simp add: nth_test)
    qed
  next
    show "{0..<length X} \<subseteq> (\<Union>p \<in> set ?ps. set (snd p))"
    proof
      fix r
      assume "r \<in> {0..<length X}"
      then obtain k where "k < length ?ps" "r \<in> set (snd (?ps ! k))"
        using one [of r] by auto
      then show "r \<in> (\<Union>p \<in> set ?ps. set (snd p))"
        using nth_mem by blast
    qed
  qed
  note masks = masks_cover_rows [OF rows two, of y groups]
  show ?thesis
  proof (intro conjI)
    show "\<forall>m \<in> set (yielded (iter_test_masks self X y groups)). length m = length X"
      by (rule masks [THEN conjunct1])
    show "\<forall>r < length X. \<exists>!k. k < length (yielded (iter_test_masks self X y groups)) \<and>
        yielded (iter_test_masks self X y groups) ! k ! r"
      by (rule masks [THEN conjunct2])
    show "raised (split self X y groups) = None"
      by (rule ok)
    show "length ?ps = card (set ?ls)"
      by (rule count)
    show "\<forall>i j. i < j \<and> j < length ?ps \<longrightarrow> set (snd (?ps ! i)) \<inter> set (snd (?ps ! j)) = {}"
      using disj by blast
    show "(\<Union>p \<in> set ?ps. set (snd p)) = {0..<length X}"
      by (rule cover)
    show "\<forall>r < length X. \<exists>!k. k < length ?ps \<and> r \<in> set (snd (?ps ! k))"
      using one by blast
  qed
qed

text \<open>The theorem at five rows labelled 3, 8, 3, 5, 8.\<close>

theorem split_tests_partition_rows_witness:
  "length (fit_predict (clusterer (stub [3, 8, 3, 5, 8])) [[1], [2], [3], [4], [5 :: int]]) =
     length [[1], [2], [3], [4], [5 :: int]] \<and>
   2 \<le> card (set (fit_predict (clusterer (stub [3, 8, 3, 5, 8]))
          [[1], [2], [3], [4], [5 :: int]])) \<and>
   raised (split (stub [3, 8, 3, 5, 8]) [[1], [2], [3], [4], [5 :: int]]
     (None :: int list option) (None :: int list option)) = None \<and>
   length (yielded (split (stub [3, 8, 3, 5, 8]) [[1], [2], [3], [4], [5 :: int]]
     (None :: int list option) (None :: int list option))) = 3 \<and>
   (\<Union>p \<in> set (yielded (split (stub [3, 8, 3, 5, 8]) [[1], [2], [3], [4], [5 :: int]]
     (None :: int list option) (None :: int list option))). set (snd p)) = {0..<5}"
proof -
  have ls: "fit_predict (clusterer (stub [3, 8, 3, 5, 8])) [[1], [2], [3], [4], [5 :: int]] =
      [3, 8, 3, 5, 8]"
    by (simp add: stub_def)
  have rows: "length (fit_predict (clusterer (stub [3, 8, 3, 5, 8]))
      [[1], [2], [3], [4], [5 :: int]]) = length [[1], [2], [3], [4], [5 :: int]]"
    by (simp add: ls)
  have two: "2 \<le> card (set (fit_predict (clusterer (stub [3, 8, 3, 5, 8]))
      [[1], [2], [3], [4], [5 :: int]]))"
    by (simp add: ls card_insert_if)
  have k: "card (set (fit_predict (clusterer (stub [3, 8, 3, 5, 8]))
      [[1], [2], [3], [4], [5 :: int]])) = 3"
    by (simp add: ls card_insert_if)
  have n: "length [[1], [2], [3], [4], [5 :: int]] = 5"
    by simp
  note partition =
    split_tests_partition_rows
      [OF rows two, of "None :: int list option" "None :: int list option",
        THEN conjunct2, THEN conjunct2]
  have ok: "raised (split (stub [3, 8, 3, 5, 8]) [[1], [2], [3], [4], [5 :: int]]
      (None :: int list option) (None :: int list option)) = None"
    by (rule partition [THEN conjunct1])
  have count: "length (yielded (split (stub [3, 8, 3, 5, 8]) [[1], [2], [3], [4], [5 :: int]]
      (None :: int list option) (None :: int list option))) = 3"
    using partition [THEN conjunct2, THEN conjunct1] unfolding k by simp
  have cover: "(\<Union>p \<in> set (yielded (split (stub [3, 8, 3, 5, 8])
      [[1], [2], [3], [4], [5 :: int]]
      (None :: int list option) (None :: int list option))). set (snd p)) = {0..<5}"
    using partition [THEN conjunct2, THEN conjunct2, THEN conjunct2, THEN conjunct1]
    unfolding n by simp
  from rows two ok count cover show ?thesis
    by (intro conjI)
qed

text \<open>
  C2. For every partition (train, test) that \<open>split\<close> yields on a feature matrix with n
  rows, the train indices are the complement {0, ..., n-1} minus the test indices, and
  train and test are disjoint.
\<close>

theorem split_train_is_complement:
  "\<forall>(train, test) \<in> set (yielded (split self X y groups)).
     set train = {0..<length X} - set test \<and> set train \<inter> set test = {}"
  by (auto simp: split_def Let_def)

text \<open>The theorem at three rows labelled 0, 1, 1, for the partition of label 0.\<close>

theorem split_train_is_complement_witness:
  "([1, 2], [0]) \<in> set (yielded (split (stub [0, 1, 1]) [[1], [2], [3 :: int]]
      (None :: int list option) (None :: int list option))) \<and>
   set [1, 2 :: nat] = {0..<length [[1], [2], [3 :: int]]} - set [0] \<and>
   set [1, 2 :: nat] \<inter> set [0] = {}"
proof -
  have mem: "([1, 2], [0]) \<in> set (yielded (split (stub [0, 1, 1]) [[1], [2], [3 :: int]]
      (None :: int list option) (None :: int list option)))"
    by (simp add: split_def iter_test_masks_def stub_def np_unique_def mask_indices_def
        Let_def upt_conv_Cons)
  have "set [1, 2 :: nat] = {0..<length [[1], [2], [3 :: int]]} - set [0] \<and>
      set [1, 2 :: nat] \<inter> set [0] = {}"
    using split_train_is_complement
      [of "stub [0, 1, 1]" "[[1], [2], [3 :: int]]" "None :: int list option"
        "None :: int list option"] mem
    by fast
  with mem show ?thesis
    by (intro conjI) simp_all
qed

text \<open>
  C3. If the clustering algorithm returns fewer than 2 distinct labels on X (for instance
  the same label for every row), then \<open>split\<close> fails with the insufficient-clusters error,
  the \<^verbatim>\<open>ValueError\<close> of \<^verbatim>\<open>_iter_test_masks\<close>, and has yielded no partition (and no
  mask) before it fails.
\<close>

theorem split_fails_below_two_labels:
  "card (set (fit_predict (clusterer self) X)) < 2 \<Longrightarrow>
   iter_test_masks self X y groups = \<lparr>yielded = [], raised = Some insufficient_clusters\<rparr> \<and>
   split self X y groups = \<lparr>yielded = [], raised = Some insufficient_clusters\<rparr>"
  by (simp add: split_unfold iter_test_masks_unfold)

text \<open>The theorem at three rows that all get the label 7.\<close>

theorem split_fails_below_two_labels_witness:
  "card (set (fit_predict (clusterer (stub [7, 7, 7])) [[1], [2], [3 :: int]])) < 2 \<and>
   split (stub [7, 7, 7]) [[1], [2], [3 :: int]]
     (None :: int list option) (None :: int list option) =
   \<lparr>yielded = [], raised = Some insufficient_clusters\<rparr>"
proof -
  have one: "card (set (fit_predict (clusterer (stub [7, 7, 7])) [[1], [2], [3 :: int]])) < 2"
    by (simp add: stub_def)
  from one
    split_fails_below_two_labels [OF one, of "None :: int list option" "None :: int list option"]
  show ?thesis
    by blast
qed

text \<open>
  C4, as the spec states it: \<open>split\<close> yields its partitions ordered by first appearance of
  each distinct label in the label sequence, not by label value. On two rows labelled
  1, 0 that order puts the test set of label 1 (row 0) first; the code yields the test
  set of label 0 (row 1) first.
\<close>

theorem split_order_first_appearance_counterexample:
  "map snd (yielded (split (stub [1, 0]) [[1], [2 :: int]]
      (None :: int list option) (None :: int list option)))
   \<noteq> map (rows_with_label [1, 0]) (spec_first_appearance [1, 0])"
  by (simp add: split_def iter_test_masks_def stub_def np_unique_def mask_indices_def
      rows_with_label_def Let_def upt_conv_Cons)

text \<open>
  C4, amended: when the clustering algorithm produces at least 2 distinct labels,
  \<open>split\<close> yields its partitions in ascending order of the distinct label values (the
  order of \<^verbatim>\<open>np.unique\<close>), not in order of first appearance: the k-th mask of
  \<^verbatim>\<open>_iter_test_masks\<close> marks, and the k-th test set is, the rows that carry the k-th
  smallest label.
\<close>

theorem split_order_ascending_labels:
  "2 \<le> card (set (fit_predict (clusterer self) X)) \<Longrightarrow>
   yielded (iter_test_masks self X y groups) =
     map (\<lambda>label. map (\<lambda>l. l = label) (fit_predict (clusterer self) X))
       (sorted_list_of_set (set (fit_predict (clusterer self) X))) \<and>
   map snd (yielded (split self X y groups)) =
     map (rows_with_label (fit_predict (clusterer self) X))
       (sorted_list_of_set (set (fit_predict (clusterer self) X)))"
  by (simp add: tests_split iter_test_masks_unfold np_unique_sorted_list)

text \<open>The theorem at three rows labelled 1, 0, 1: the rows of label 0 come first.\<close>

theorem split_order_ascending_labels_witness:
  "2 \<le> card (set (fit_predict (clusterer (stub [1, 0, 1])) [[1], [2], [3 :: int]])) \<and>
   map snd (yielded (split (stub [1, 0, 1]) [[1], [2], [3 :: int]]
     (None :: int list option) (None :: int list option))) = [[1], [0, 2]]"
proof -
  have ls: "fit_predict (clusterer (stub [1, 0, 1])) [[1], [2], [3 :: int]] = [1, 0, 1]"
    by (simp add: stub_def)
  have two: "2 \<le> card (set (fit_predict (clusterer (stub [1, 0, 1])) [[1], [2], [3 :: int]]))"
    by (simp add: ls card_insert_if)
  have asc: "sorted_list_of_set (set [1, 0, 1 :: int]) = [0, 1]"
    by (simp only: sorted_list_of_set_sort_remdups) simp
  have "map snd (yielded (split (stub [1, 0, 1]) [[1], [2], [3 :: int]]
          (None :: int list option) (None :: int list option))) =
        map (rows_with_label [1, 0, 1]) [0, 1]"
    using split_order_ascending_labels
      [OF two, of "None :: int list option" "None :: int list option"]
    unfolding ls asc by (rule conjunct2)
  then show ?thesis
    using two by (simp add: rows_with_label_def upt_conv_Cons)
qed

text \<open>
  C5, as the spec states it: for every feature matrix and every deterministic clustering
  algorithm, the sequence \<open>split\<close> yields has the length \<open>get_n_splits\<close> returns. On two
  rows that both get the label 0, \<open>get_n_splits\<close> returns 1 and \<open>split\<close> yields nothing.
\<close>

theorem split_length_get_n_splits_counterexample:
  "length (yielded (split (stub [0, 0]) [[1], [2 :: int]]
      (None :: int list option) (None :: int list option)))
   \<noteq> get_n_splits (stub [0, 0]) [[1], [2 :: int]]
      (None :: int list option) (None :: int list option)"
  by (simp add: split_def iter_test_masks_def get_n_splits_def stub_def np_unique_def Let_def)

text \<open>
  C5, amended: for every feature matrix X and every deterministic clustering algorithm
  that produces at least 2 distinct labels on X, \<open>get_n_splits\<close> returns the number of
  distinct labels, and \<open>split\<close> ends without error and yields a sequence of that length
  (as many partitions as \<^verbatim>\<open>_iter_test_masks\<close> yields masks).
\<close>

theorem split_length_get_n_splits:
  "2 \<le> card (set (fit_predict (clusterer self) X)) \<Longrightarrow>
   get_n_splits self X y groups = card (set (fit_predict (clusterer self) X)) \<and>
   raised (iter_test_masks self X y groups) = None \<and>
   length (yielded (iter_test_masks self X y groups)) = get_n_splits self X y groups \<and>
   raised (split self X y groups) = None \<and>
   length (yielded (split self X y groups)) = get_n_splits self X y groups"
  by (simp add: split_unfold iter_test_masks_unfold get_n_splits_def length_np_unique)

text \<open>The theorem at three rows labelled 4, 9, 4.\<close>

theorem split_length_get_n_splits_witness:
  "2 \<le> card (set (fit_predict (clusterer (stub [4, 9, 4])) [[1], [2], [3 :: int]])) \<and>
   get_n_splits (stub [4, 9, 4]) [[1], [2], [3 :: int]]
     (None :: int list option) (None :: int list option) = 2 \<and>
   length (yielded (split (stub [4, 9, 4]) [[1], [2], [3 :: int]]
     (None :: int list option) (None :: int list option))) = 2"
proof -
  have ls: "fit_predict (clusterer (stub [4, 9, 4])) [[1], [2], [3 :: int]] = [4, 9, 4]"
    by (simp add: stub_def)
  have two: "2 \<le> card (set (fit_predict (clusterer (stub [4, 9, 4])) [[1], [2], [3 :: int]]))"
    by (simp add: ls card_insert_if)
  have k: "card (set (fit_predict (clusterer (stub [4, 9, 4])) [[1], [2], [3 :: int]])) = 2"
    by (simp add: ls card_insert_if)
  from two
    split_length_get_n_splits [OF two, of "None :: int list option" "None :: int list option"]
  show ?thesis
    unfolding k by simp
qed

text \<open>
  C6. \<open>get_n_splits\<close> raises no error when the clustering algorithm produces fewer than 2
  distinct labels on X: it returns the number of distinct labels (1 for a single label) in
  the very situation where \<open>split\<close> fails, with the \<^verbatim>\<open>ValueError\<close> of
  \<^verbatim>\<open>_iter_test_masks\<close>.
\<close>

theorem get_n_splits_below_two_labels:
  "card (set (fit_predict (clusterer self) X)) < 2 \<Longrightarrow>
   get_n_splits self X y groups = card (set (fit_predict (clusterer self) X)) \<and>
   raised (iter_test_masks self X y groups) = Some insufficient_clusters \<and>
   raised (split self X y groups) = Some insufficient_clusters"
  by (simp add: split_unfold iter_test_masks_unfold get_n_splits_def length_np_unique)

text \<open>The theorem at three rows that all get the label 5: the count is 1.\<close>

theorem get_n_splits_below_two_labels_witness:
  "card (set (fit_predict (clusterer (stub [5, 5, 5])) [[1], [2], [3 :: int]])) < 2 \<and>
   get_n_splits (stub [5, 5, 5]) [[1], [2], [3 :: int]]
     (None :: int list option) (None :: int list option) = 1 \<and>
   raised (split (stub [5, 5, 5]) [[1], [2], [3 :: int]]
     (None :: int list option) (None :: int list option)) = Some insufficient_clusters"
proof -
  have k: "card (set (fit_predict (clusterer (stub [5, 5, 5])) [[1], [2], [3 :: int]])) = 1"
    by (simp add: stub_def)
  have one: "card (set (fit_predict (clusterer (stub [5, 5, 5])) [[1], [2], [3 :: int]])) < 2"
    by (simp add: k)
  from one
    get_n_splits_below_two_labels
      [OF one, of "None :: int list option" "None :: int list option"]
  show ?thesis
    unfolding k by simp
qed

text \<open>
  C7. For a feature matrix X with 4 rows and a stub clustering algorithm returning the
  labels [0,0,1,1], \<open>split\<close> yields exactly two partitions, (train={2,3}, test={0,1}) and
  (train={0,1}, test={2,3}), and ends without error. The code yields them in this order;
  the index lists are ascending. The masks of \<^verbatim>\<open>_iter_test_masks\<close> are given too.
\<close>

theorem split_minimum_viable_case:
  "length X = 4 \<Longrightarrow>
   iter_test_masks (stub [0, 0, 1, 1]) X y groups =
     \<lparr>yielded = [[True, True, False, False], [False, False, True, True]], raised = None\<rparr> \<and>
   split (stub [0, 0, 1, 1]) X y groups =
     \<lparr>yielded = [([2, 3], [0, 1]), ([0, 1], [2, 3])], raised = None\<rparr>"
  by (simp add: split_def iter_test_masks_def stub_def np_unique_def mask_indices_def
      Let_def upt_conv_Cons)

text \<open>The theorem at a feature matrix of four rows and two columns.\<close>

theorem split_minimum_viable_case_witness:
  "length [[1, 2], [3, 4], [5, 6], [7, 8 :: int]] = 4 \<and>
   split (stub [0, 0, 1, 1]) [[1, 2], [3, 4], [5, 6], [7, 8 :: int]]
     (None :: int list option) (None :: int list option) =
     \<lparr>yielded = [([2, 3], [0, 1]), ([0, 1], [2, 3])], raised = None\<rparr>"
proof -
  have four: "length [[1, 2], [3, 4], [5, 6], [7, 8 :: int]] = 4"
    by simp
  from four
    split_minimum_viable_case
      [OF four, of "None :: int list option" "None :: int list option"]
  show ?thesis
    by blast
qed

text \<open>
  C8. For a feature matrix X with 3 rows and a stub clustering algorithm returning the
  labels [0,1,1], \<open>split\<close> raises no error and yields one partition with test={0},
  train={1,2} and another with test={1,2}, train={0}: the test set of size 1 is treated
  like any other.
\<close>

theorem split_singleton_cluster:
  "length X = 3 \<Longrightarrow>
   iter_test_masks (stub [0, 1, 1]) X y groups =
     \<lparr>yielded = [[True, False, False], [False, True, True]], raised = None\<rparr> \<and>
   split (stub [0, 1, 1]) X y groups =
     \<lparr>yielded = [([1, 2], [0]), ([0], [1, 2])], raised = None\<rparr>"
  by (simp add: split_def iter_test_masks_def stub_def np_unique_def mask_indices_def
      Let_def upt_conv_Cons)

text \<open>The theorem at a feature matrix of three rows and two columns.\<close>

theorem split_singleton_cluster_witness:
  "length [[1, 2], [3, 4], [5, 6 :: int]] = 3 \<and>
   split (stub [0, 1, 1]) [[1, 2], [3, 4], [5, 6 :: int]]
     (None :: int list option) (None :: int list option) =
     \<lparr>yielded = [([1, 2], [0]), ([0], [1, 2])], raised = None\<rparr>"
proof -
  have three: "length [[1, 2], [3, 4], [5, 6 :: int]] = 3"
    by simp
  from three
    split_singleton_cluster
      [OF three, of "None :: int list option" "None :: int list option"]
  show ?thesis
    by blast
qed

text \<open>
  C9. The output of \<open>split\<close> does not depend on the target argument y nor on the groups
  argument: for every feature matrix X, every deterministic clustering algorithm and any
  two values of y and of groups, the two calls produce the same sequence and the same
  outcome. The same holds of \<^verbatim>\<open>_iter_test_masks\<close>, which receives both arguments and
  reads neither.
\<close>

theorem split_ignores_y_and_groups:
  "iter_test_masks self X y1 groups1 = iter_test_masks self X y2 groups2 \<and>
   split self X y1 groups1 = split self X y2 groups2"
  by (simp add: split_def iter_test_masks_def)

text \<open>The theorem at two rows labelled 0, 1, with a target vector and without one.\<close>

theorem split_ignores_y_and_groups_witness:
  "split (stub [0, 1]) [[1], [2 :: int]] (Some [10, 20 :: int]) (Some [1, 1 :: int]) =
   split (stub [0, 1]) [[1], [2 :: int]] (None :: int list option) (None :: int list option)"
  using split_ignores_y_and_groups
    [of "stub [0, 1]" "[[1], [2 :: int]]" "Some [10, 20 :: int]" "Some [1, 1 :: int]"
      "None :: int list option" "None :: int list option"]
  by blast

text \<open>
  C10. Every partition \<open>split\<close> yields has a nonempty test set, since each enumerated label
  occurs in the label sequence, and a nonempty train set, since no partition is yielded
  unless there are at least 2 distinct labels: every mask of \<^verbatim>\<open>_iter_test_masks\<close> holds
  a True and a False. For the train index lists the clustering algorithm is taken to
  label every row of X, as its contract says.
\<close>

theorem split_partitions_nonempty:
  "(\<forall>m \<in> set (yielded (iter_test_masks self X y groups)). True \<in> set m \<and> False \<in> set m) \<and>
   (\<forall>(train, test) \<in> set (yielded (split self X y groups)). test \<noteq> []) \<and>
   (length (fit_predict (clusterer self) X) = length X \<longrightarrow>
      (\<forall>(train, test) \<in> set (yielded (split self X y groups)). train \<noteq> []))"
proof -
  let ?ls = "fit_predict (clusterer self) X"
  have masks: "True \<in> set m \<and> False \<in> set m \<and> length m = length ?ls"
    if "m \<in> set (yielded (iter_test_masks self X y groups))" for m
  proof -
    from that have two: "2 \<le> card (set ?ls)"
      by (auto simp: iter_test_masks_unfold split: if_splits)
    with that obtain label where label: "label \<in> set ?ls"
      and m: "m = map (\<lambda>l. l = label) ?ls"
      by (auto simp: iter_test_masks_unfold set_np_unique)
    from other_label [OF two] obtain other where "other \<in> set ?ls" "other \<noteq> label"
      by blast
    then have "False \<in> set m"
      unfolding m by force
    moreover have "True \<in> set m"
      unfolding m using label by force
    ultimately show ?thesis
      by (simp add: m)
  qed
  have parts: "test \<noteq> [] \<and> (length ?ls = length X \<longrightarrow> train \<noteq> [])"
    if "(train, test) \<in> set (yielded (split self X y groups))" for train test
  proof -
    from that obtain m where m: "m \<in> set (yielded (iter_test_masks self X y groups))"
      and test: "test = mask_indices m"
      and train: "train = filter (\<lambda>i. i \<notin> set (mask_indices m)) [0..<length X]"
      by (auto simp: split_def Let_def)
    from masks [OF m] show ?thesis
      unfolding test train by (simp add: mask_indices_nonempty complement_nonempty)
  qed
  show ?thesis
  proof (intro conjI)
    show "\<forall>m \<in> set (yielded (iter_test_masks self X y groups)). True \<in> set m \<and> False \<in> set m"
      using masks by blast
    show "\<forall>(train, test) \<in> set (yielded (split self X y groups)). test \<noteq> []"
      using parts by blast
    show "length ?ls = length X \<longrightarrow>
        (\<forall>(train, test) \<in> set (yielded (split self X y groups)). train \<noteq> [])"
      using parts by blast
  qed
qed

text \<open>The theorem at three rows labelled 2, 2, 7, for the partition of label 2.\<close>

theorem split_partitions_nonempty_witness:
  "length (fit_predict (clusterer (stub [2, 2, 7])) [[1], [2], [3 :: int]]) =
     length [[1], [2], [3 :: int]] \<and>
   ([2], [0, 1]) \<in> set (yielded (split (stub [2, 2, 7]) [[1], [2], [3 :: int]]
     (None :: int list option) (None :: int list option))) \<and>
   [0, 1 :: nat] \<noteq> [] \<and> [2 :: nat] \<noteq> []"
proof -
  have rows: "length (fit_predict (clusterer (stub [2, 2, 7])) [[1], [2], [3 :: int]]) =
      length [[1], [2], [3 :: int]]"
    by (simp add: stub_def)
  have mem: "([2], [0, 1]) \<in> set (yielded (split (stub [2, 2, 7]) [[1], [2], [3 :: int]]
      (None :: int list option) (None :: int list option)))"
    by (simp add: split_def iter_test_masks_def stub_def np_unique_def mask_indices_def
        Let_def upt_conv_Cons)
  have "[0, 1 :: nat] \<noteq> [] \<and> [2 :: nat] \<noteq> []"
    using split_partitions_nonempty
      [of "stub [2, 2, 7]" "[[1], [2], [3 :: int]]" "None :: int list option"
        "None :: int list option"] rows mem
    by fast
  with rows mem show ?thesis
    by (intro conjI) simp_all
qed

end
